theory Spec2Isabelle
  imports Complex_Main "HOL-Library.Word"
begin

unbundle bit_operations_syntax

section \<open>The particle engine of universe-ai (services/particleEngine.ts)\<close>

text \<open>
  The class \<^verbatim>\<open>ParticleEngine\<close> is embedded as a record of its fields and one HOL function
  per method; every method takes the engine and returns the updated engine.

  Numbers: a JavaScript \<^verbatim>\<open>number\<close> is modelled as a \<^typ>\<open>real\<close>. Rounding of IEEE
  doubles, the rounding of a store into a \<^verbatim>\<open>Float32Array\<close>, NaN and the infinities are not
  modelled. A typed array of fixed length is a function from the index to the value stored
  there; every index the code computes is inside the array (particle indices are below
  \<^verbatim>\<open>MAX_PARTICLES\<close>, hashes are masked by \<^verbatim>\<open>hashSize - 1\<close>).

  Randomness: \<^verbatim>\<open>Math.random()\<close> is a field \<open>randomSrc\<close> of the state, the sequence of the
  draws not consumed yet. A piece of code that calls \<^verbatim>\<open>Math.random()\<close> k times reads
  \<open>randomSrc 0\<close> ... \<open>randomSrc (k - 1)\<close> in the order of the calls and then drops k draws.

  The THREE.js scene, camera and renderer are outside the model; of the scene graph only the
  two rotation angles written by \<^verbatim>\<open>animate\<close> are kept. The arrays of the geometry's
  position and colour attributes are the arrays \<^verbatim>\<open>this.positions\<close> and \<^verbatim>\<open>this.colors\<close>
  themselves, so a write through the attribute is a write to the field.
\<close>

subsection \<open>types.ts\<close>

datatype ShapeType = NEBULA | HEART | SPHERE | GALAXY | MOBIUS | CUSTOM

record ParticleConfig =
  density :: real
  spread :: real
  color :: string
  shape :: ShapeType

text \<open>\<^verbatim>\<open>Point3D = { x, y, z }\<close>; the fields are prefixed, since \<open>x\<close>, \<open>y\<close>, \<open>z\<close> as
  selectors would capture the variables of every later statement.\<close>

record Point3D =
  px :: real
  py :: real
  pz :: real

text \<open>\<^verbatim>\<open>Partial<ParticleConfig>\<close>: a key that is absent is \<open>None\<close>. A key present with
  the value \<^verbatim>\<open>undefined\<close>, which no caller passes, is not modelled.\<close>

record PartialConfig =
  newDensity :: "real option"
  newSpread :: "real option"
  newColor :: "string option"
  newShape :: "ShapeType option"

subsection \<open>The engine state\<close>

definition MAX_PARTICLES :: nat where
  "MAX_PARTICLES = 25000"

definition hashSize :: nat where
  "hashSize = 16384"

record ParticleEngine =
  positions :: "nat \<Rightarrow> real"
  targetPositions :: "nat \<Rightarrow> real"
  colors :: "nat \<Rightarrow> real"
  hashTable :: "nat \<Rightarrow> int"
  nextEntry :: "nat \<Rightarrow> int"
  currentConfig :: ParticleConfig
  customShapePoints :: "Point3D list"
  scrollVelocity :: real
  isDisposed :: bool
  particlesRotationY :: real
  bgStarsRotationY :: real
  randomSrc :: "nat \<Rightarrow> real"

text \<open>Dropping the k draws a piece of code has consumed.\<close>

definition dropDraws :: "nat \<Rightarrow> (nat \<Rightarrow> real) \<Rightarrow> (nat \<Rightarrow> real)" where
  "dropDraws k rnd = (\<lambda>n. rnd (n + k))"

text \<open>The two services of \<^verbatim>\<open>THREE.Color\<close> the engine uses, taken as parameters:
  \<^verbatim>\<open>new THREE.Color(css)\<close> and \<^verbatim>\<open>setHSL(h, s, l)\<close>, each giving the r, g, b components.\<close>

record ThreeColor =
  parseColor :: "string \<Rightarrow> real \<times> real \<times> real"
  setHSL :: "real \<Rightarrow> real \<Rightarrow> real \<Rightarrow> real \<times> real \<times> real"

subsection \<open>handleScroll and dispose\<close>

definition handleScroll :: "real \<Rightarrow> ParticleEngine \<Rightarrow> ParticleEngine" where
  "handleScroll deltaY e =
     (if isDisposed e then e
      else let sensitivity = 0.0005;
               v = scrollVelocity e + \<bar>deltaY\<bar> * sensitivity
           in e\<lparr>scrollVelocity := (if v > 0.3 then 0.3 else v)\<rparr>)"

text \<open>\<^verbatim>\<open>dispose\<close> sets the flag; the rest of it releases renderer resources and the
  wheel listener, which are outside the model.\<close>

definition dispose :: "ParticleEngine \<Rightarrow> ParticleEngine" where
  "dispose e = e\<lparr>isDisposed := True\<rparr>"

subsection \<open>updateTargetShape: the shape generators\<close>

definition sphereTarget :: "(nat \<Rightarrow> real) \<Rightarrow> real \<times> real \<times> real" where
  "sphereTarget rnd =
     (let r = 12 * root 3 (rnd 0);
          theta = rnd 1 * 2 * pi;
          phi = arccos (2 * rnd 2 - 1)
      in (r * sin phi * cos theta, r * sin phi * sin theta, r * cos phi))"

definition heartTarget :: "(nat \<Rightarrow> real) \<Rightarrow> real \<times> real \<times> real" where
  "heartTarget rnd =
     (let t = rnd 0 * pi * 2;
          scaleH = 0.9;
          hx = 16 * (sin t) ^ 3;
          hy = 13 * cos t - 5 * cos (2 * t) - 2 * cos (3 * t) - cos (4 * t);
          rVol = rnd 1
      in (hx * scaleH * rVol, hy * scaleH * rVol, (rnd 2 - 0.5) * 10 * rVol))"

definition galaxyTarget :: "nat \<Rightarrow> (nat \<Rightarrow> real) \<Rightarrow> real \<times> real \<times> real" where
  "galaxyTarget i rnd =
     (let arms = (3::nat);
          spin = 3.5;
          rGal = rnd 0 powr 0.7;
          radius = rGal * 22;
          armIndex = i mod arms;
          armAngle = (real armIndex / real arms) * pi * 2;
          angleBase = armAngle + rGal * spin;
          spreadG = 0.3 + rGal * 0.8;
          angleRandom = (rnd 1 - 0.5) * spreadG;
          finalAngle = angleBase + angleRandom
      in (cos finalAngle * radius, sin finalAngle * radius,
          (rnd 2 - 0.5) * (6 * (1 - rGal * 0.7))))"

text \<open>The two lengths the Moebius generator divides by: \<^verbatim>\<open>tLen\<close>, the length of the
  tangent \<^verbatim>\<open>(tx, ty, tz)\<close>, and \<^verbatim>\<open>nLen\<close>, the length of \<^verbatim>\<open>(-nty, ntx, 0)\<close>.\<close>

definition mobiusTLen :: "real \<Rightarrow> real" where
  "mobiusTLen uMob =
     (let tx = 18 * cos uMob; ty = 18 * cos (2 * uMob); tz = - 4 * sin uMob
      in sqrt (tx * tx + ty * ty + tz * tz))"

definition mobiusNLen :: "real \<Rightarrow> real" where
  "mobiusNLen uMob =
     (let tLen = mobiusTLen uMob;
          ntx = 18 * cos uMob / tLen; nty = 18 * cos (2 * uMob) / tLen;
          nx = - nty; ny = ntx; nz = 0
      in sqrt (nx * nx + ny * ny + nz * nz))"

definition mobiusTarget :: "(nat \<Rightarrow> real) \<Rightarrow> real \<times> real \<times> real" where
  "mobiusTarget rnd =
     (let uMob = rnd 0 * pi * 2;
          wMob = (rnd 1 - 0.5) * 6;
          scale = 18;
          depthScale = 4;
          xc = scale * sin uMob;
          yc = scale * sin uMob * cos uMob;
          zc = depthScale * cos uMob;
          tx = scale * cos uMob;
          ty = scale * cos (2 * uMob);
          tz = - depthScale * sin uMob;
          tLen = mobiusTLen uMob;
          ntx = tx / tLen;
          nty = ty / tLen;
          ntz = tz / tLen;
          nx0 = - nty;
          ny0 = ntx;
          nz0 = 0;
          nLen = mobiusNLen uMob;
          nx = nx0 / nLen;
          ny = ny0 / nLen;
          nz = nz0 / nLen;
          bx = nty * nz - ntz * ny;
          by = ntz * nx - ntx * nz;
          bz = ntx * ny - nty * nx;
          twistAngle = uMob / 2;
          cosTwist = cos twistAngle;
          sinTwist = sin twistAngle;
          offX = nx * cosTwist + bx * sinTwist;
          offY = ny * cosTwist + by * sinTwist;
          offZ = nz * cosTwist + bz * sinTwist;
          thickness = (rnd 2 - 0.5) * 1.5
      in (xc + wMob * offX + (rnd 3 - 0.5) * 0.5,
          yc + wMob * offY + (rnd 4 - 0.5) * 0.5,
          zc + wMob * offZ + ((rnd 5 - 0.5) * 0.5 + thickness)))"

definition customTarget :: "Point3D list \<Rightarrow> nat \<Rightarrow> (nat \<Rightarrow> real) \<Rightarrow> real \<times> real \<times> real" where
  "customTarget pts i rnd =
     (if length pts > 0 then
        let p = pts ! (i mod length pts)
        in (px p + (rnd 0 - 0.5), py p + (rnd 1 - 0.5), pz p + (rnd 2 - 0.5))
      else
        let rs = 5
        in ((rnd 0 - 0.5) * rs, (rnd 1 - 0.5) * rs, 0))"

definition nebulaTarget :: "(nat \<Rightarrow> real) \<Rightarrow> real \<times> real \<times> real" where
  "nebulaTarget rnd =
     (let dst = rnd 0;
          angle = rnd 1 * pi * 2;
          rad = (if rnd 2 < 0.5 then rnd 3 * 5 else rnd 3 * 20)
      in (cos angle * rad, sin angle * rad, (rnd 4 - 0.5) * 10))"

text \<open>The \<^verbatim>\<open>switch (shape)\<close> of the loop body, and the number of draws each case makes.\<close>

fun shapeTarget :: "ShapeType \<Rightarrow> Point3D list \<Rightarrow> nat \<Rightarrow> (nat \<Rightarrow> real) \<Rightarrow> real \<times> real \<times> real" where
  "shapeTarget SPHERE pts i rnd = sphereTarget rnd"
| "shapeTarget HEART pts i rnd = heartTarget rnd"
| "shapeTarget GALAXY pts i rnd = galaxyTarget i rnd"
| "shapeTarget MOBIUS pts i rnd = mobiusTarget rnd"
| "shapeTarget CUSTOM pts i rnd = customTarget pts i rnd"
| "shapeTarget NEBULA pts i rnd = nebulaTarget rnd"

fun shapeDraws :: "ShapeType \<Rightarrow> Point3D list \<Rightarrow> nat" where
  "shapeDraws SPHERE pts = 3"
| "shapeDraws HEART pts = 3"
| "shapeDraws GALAXY pts = 3"
| "shapeDraws MOBIUS pts = 6"
| "shapeDraws CUSTOM pts = (if length pts > 0 then 3 else 2)"
| "shapeDraws NEBULA pts = 5"

text \<open>\<^verbatim>\<open>const count = Math.floor(MAX_PARTICLES * density)\<close>.\<close>

definition activeCount :: "ParticleEngine \<Rightarrow> int" where
  "activeCount e = \<lfloor>real MAX_PARTICLES * density (currentConfig e)\<rfloor>"

text \<open>One iteration of the loop of \<^verbatim>\<open>updateTargetShape\<close>.\<close>

definition targetStep :: "ShapeType \<Rightarrow> int \<Rightarrow> nat \<Rightarrow> ParticleEngine \<Rightarrow> ParticleEngine" where
  "targetStep sh count i e =
     (if int i \<ge> count then
        e\<lparr>targetPositions := (targetPositions e)(i * 3 := 9999, i * 3 + 1 := 9999, i * 3 + 2 := 9999)\<rparr>
      else
        (case shapeTarget sh (customShapePoints e) i (randomSrc e) of (x, y, z) \<Rightarrow>
           e\<lparr>targetPositions := (targetPositions e)(i * 3 := x, i * 3 + 1 := y, i * 3 + 2 := z),
             randomSrc := dropDraws (shapeDraws sh (customShapePoints e)) (randomSrc e)\<rparr>))"

definition updateTargetShape :: "ParticleEngine \<Rightarrow> ParticleEngine" where
  "updateTargetShape e =
     fold (targetStep (shape (currentConfig e)) (activeCount e)) [0..<MAX_PARTICLES] e"

subsection \<open>setCustomShape and updateConfig\<close>

definition setCustomShape :: "Point3D list \<Rightarrow> ParticleEngine \<Rightarrow> ParticleEngine" where
  "setCustomShape points e =
     (let e1 = e\<lparr>customShapePoints := points\<rparr>
      in if shape (currentConfig e1) = CUSTOM then updateTargetShape e1 else e1)"

text \<open>\<^verbatim>\<open>{ ...this.currentConfig, ...newConfig }\<close>.\<close>

definition mergeConfig :: "ParticleConfig \<Rightarrow> PartialConfig \<Rightarrow> ParticleConfig" where
  "mergeConfig c n =
     \<lparr>density = (case newDensity n of Some d \<Rightarrow> d | None \<Rightarrow> density c),
      spread = (case newSpread n of Some s \<Rightarrow> s | None \<Rightarrow> spread c),
      color = (case newColor n of Some s \<Rightarrow> s | None \<Rightarrow> color c),
      shape = (case newShape n of Some s \<Rightarrow> s | None \<Rightarrow> shape c)\<rparr>"

text \<open>The two repaint loops over the colour attribute, whose array is \<open>colors\<close>.\<close>

definition paintMulti :: "ThreeColor \<Rightarrow> nat \<Rightarrow> ParticleEngine \<Rightarrow> ParticleEngine" where
  "paintMulti three i e =
     (case setHSL three (randomSrc e 0) 1.0 0.6 of (r, g, b) \<Rightarrow>
        e\<lparr>colors := (colors e)(i * 3 := r, i * 3 + 1 := g, i * 3 + 2 := b),
          randomSrc := dropDraws 1 (randomSrc e)\<rparr>)"

definition paintSingle :: "real \<times> real \<times> real \<Rightarrow> nat \<Rightarrow> ParticleEngine \<Rightarrow> ParticleEngine" where
  "paintSingle c i e =
     (case c of (r, g, b) \<Rightarrow>
        e\<lparr>colors := (colors e)(i * 3 := r, i * 3 + 1 := g, i * 3 + 2 := b)\<rparr>)"

text \<open>\<^verbatim>\<open>if (newConfig.color)\<close> is false for an absent key and for the empty string.\<close>

definition repaint :: "ThreeColor \<Rightarrow> PartialConfig \<Rightarrow> ParticleEngine \<Rightarrow> ParticleEngine" where
  "repaint three n e =
     (case newColor n of
        None \<Rightarrow> e
      | Some c \<Rightarrow>
          if c = [] then e
          else if c = ''MULTICOLOR'' then fold (paintMulti three) [0..<MAX_PARTICLES] e
          else fold (paintSingle (parseColor three c)) [0..<MAX_PARTICLES] e)"

definition updateConfig :: "ThreeColor \<Rightarrow> PartialConfig \<Rightarrow> ParticleEngine \<Rightarrow> ParticleEngine" where
  "updateConfig three n e =
     (if isDisposed e then e
      else
        let e1 = e\<lparr>currentConfig := mergeConfig (currentConfig e) n\<rparr>;
            e2 = repaint three n e1
        in if newShape n \<noteq> None \<or> newDensity n \<noteq> None then updateTargetShape e2 else e2)"

subsection \<open>animate\<close>

definition cellSize :: real where
  "cellSize = 1.2"

text \<open>The cell hash: \<^verbatim>\<open>^\<close> and \<^verbatim>\<open>&\<close> work on the operands reduced to 32 bits; the mask
  \<^verbatim>\<open>hashSize - 1\<close> leaves a value in \<open>0 .. 16383\<close>.\<close>

definition cellHash :: "real \<Rightarrow> real \<Rightarrow> real \<Rightarrow> nat" where
  "cellHash x y z =
     (let xi = \<lfloor>x / cellSize\<rfloor>;
          yi = \<lfloor>y / cellSize\<rfloor>;
          zi = \<lfloor>z / cellSize\<rfloor>;
          hashMask = hashSize - 1
      in unat (((word_of_int (xi * 73856093) :: 32 word) XOR word_of_int (yi * 19349663)
                 XOR word_of_int (zi * 83492791)) AND word_of_nat hashMask))"

text \<open>One iteration of the loop that fills the spatial hash.\<close>

definition gridStep :: "nat \<Rightarrow> ParticleEngine \<Rightarrow> ParticleEngine" where
  "gridStep i e =
     (let idx = i * 3; pos = positions e
      in if pos idx > 8000 then e
         else
           let hash = cellHash (pos idx) (pos (idx + 1)) (pos (idx + 2))
           in e\<lparr>nextEntry := (nextEntry e)(i := hashTable e hash),
                hashTable := (hashTable e)(hash := int i)\<rparr>)"

definition explosionFactor :: "real \<Rightarrow> real \<Rightarrow> real" where
  "explosionFactor handOpenness sprd = handOpenness * 60 * sprd"

definition cohesionSpeed :: "real \<Rightarrow> real" where
  "cohesionSpeed handOpenness = 0.05 + (1 - handOpenness) * 0.1"

definition noiseAmt :: "real \<Rightarrow> real" where
  "noiseAmt handOpenness = handOpenness * 0.8"

text \<open>The target of particle i as the blend uses it: perturbed when the hand is open.\<close>

definition perturbedTarget :: "real \<Rightarrow> nat \<Rightarrow> ParticleEngine \<Rightarrow> real \<times> real \<times> real" where
  "perturbedTarget handOpenness i e =
     (let idx = i * 3;
          tx = targetPositions e idx;
          ty = targetPositions e (idx + 1);
          tz = targetPositions e (idx + 2)
      in if handOpenness > 0.1 then
           let dst = sqrt (tx * tx + ty * ty + tz * tz) + 0.1;
               dirX = tx / dst;
               dirY = ty / dst;
               dirZ = tz / dst;
               ef = explosionFactor handOpenness (spread (currentConfig e))
           in (tx + dirX * ef + (randomSrc e 0 - 0.5) * noiseAmt handOpenness,
               ty + dirY * ef + (randomSrc e 1 - 0.5) * noiseAmt handOpenness,
               tz + dirZ * ef + (randomSrc e 2 - 0.5) * noiseAmt handOpenness)
         else (tx, ty, tz))"

text \<open>The smoothing of particle i towards that target.\<close>

definition blendStep :: "real \<Rightarrow> nat \<Rightarrow> ParticleEngine \<Rightarrow> ParticleEngine" where
  "blendStep handOpenness i e =
     (case perturbedTarget handOpenness i e of (tx, ty, tz) \<Rightarrow>
        let idx = i * 3; pos = positions e; cs = cohesionSpeed handOpenness
        in e\<lparr>positions := pos(idx := pos idx + (tx - pos idx) * cs,
                              idx + 1 := pos (idx + 1) + (ty - pos (idx + 1)) * cs,
                              idx + 2 := pos (idx + 2) + (tz - pos (idx + 2)) * cs),
             randomSrc := dropDraws (if handOpenness > 0.1 then 3 else 0) (randomSrc e)\<rparr>)"

text \<open>The squared distance between particle i and a neighbour, and the body of the
  \<^verbatim>\<open>while\<close> loop for one neighbour.\<close>

definition distSq :: "(nat \<Rightarrow> real) \<Rightarrow> nat \<Rightarrow> int \<Rightarrow> real" where
  "distSq pos i neighbor =
     (let idx = i * 3; nIdx = nat neighbor * 3;
          dx = pos idx - pos nIdx;
          dy = pos (idx + 1) - pos (nIdx + 1);
          dz = pos (idx + 2) - pos (nIdx + 2)
      in dx * dx + dy * dy + dz * dz)"

definition repelStep :: "nat \<Rightarrow> int \<Rightarrow> (nat \<Rightarrow> real) \<Rightarrow> (nat \<Rightarrow> real)" where
  "repelStep i neighbor pos =
     (if neighbor \<noteq> int i then
        let idx = i * 3; nIdx = nat neighbor * 3;
            dx = pos idx - pos nIdx;
            dy = pos (idx + 1) - pos (nIdx + 1);
            dz = pos (idx + 2) - pos (nIdx + 2);
            dSq = distSq pos i neighbor;
            minDist = 0.7
        in if dSq < minDist * minDist \<and> dSq > 0.00001 then
             let dst = sqrt dSq;
                 pushStrength = 0.15;
                 force = (minDist - dst) / dst * pushStrength
             in pos(idx := pos idx + dx * force,
                    idx + 1 := pos (idx + 1) + dy * force,
                    idx + 2 := pos (idx + 2) + dz * force)
           else pos
      else pos)"

definition maxChecks :: nat where
  "maxChecks = 10"

function repelLoop :: "nat \<Rightarrow> (nat \<Rightarrow> int) \<Rightarrow> int \<Rightarrow> nat \<Rightarrow> (nat \<Rightarrow> real) \<Rightarrow> (nat \<Rightarrow> real)" where
  "repelLoop i nxt neighbor checkCount pos =
     (if neighbor \<noteq> - 1 \<and> checkCount < maxChecks
      then repelLoop i nxt (nxt (nat neighbor)) (checkCount + 1) (repelStep i neighbor pos)
      else pos)"
  by pat_completeness auto
termination
  by (relation "measure (\<lambda>(i, nxt, neighbor, checkCount, pos). maxChecks - checkCount)") auto

text \<open>The equation of the loop unfolds itself for ever; it is used by hand.\<close>

declare repelLoop.simps [simp del]

text \<open>The repulsion of particle i: its cell is hashed from its position after the blend.\<close>

definition repelPhase :: "nat \<Rightarrow> ParticleEngine \<Rightarrow> ParticleEngine" where
  "repelPhase i e =
     (let idx = i * 3; pos = positions e;
          hash = cellHash (pos idx) (pos (idx + 1)) (pos (idx + 2))
      in e\<lparr>positions := repelLoop i (nextEntry e) (hashTable e hash) 0 pos\<rparr>)"

text \<open>One iteration of the particle loop of \<^verbatim>\<open>animate\<close>.\<close>

definition particleStep :: "real \<Rightarrow> nat \<Rightarrow> ParticleEngine \<Rightarrow> ParticleEngine" where
  "particleStep handOpenness i e =
     (if targetPositions e (i * 3) > 9000
      then e\<lparr>positions := (positions e)(i * 3 := 9999)\<rparr>
      else repelPhase i (blendStep handOpenness i e))"

definition decayScroll :: "real \<Rightarrow> real" where
  "decayScroll v = (let v1 = v * 0.96 in if \<bar>v1\<bar> < 0.0001 then 0 else v1)"

text \<open>The head of \<^verbatim>\<open>animate\<close>: momentum decay and the two rotations.\<close>

definition startFrame :: "ParticleEngine \<Rightarrow> ParticleEngine" where
  "startFrame e =
     (let v = decayScroll (scrollVelocity e);
          baseRotationSpeed = 0.002;
          currentSpeed = baseRotationSpeed + v
      in e\<lparr>scrollVelocity := v,
           particlesRotationY := particlesRotationY e + currentSpeed,
           bgStarsRotationY := bgStarsRotationY e - 0.0003\<rparr>)"

text \<open>The spatial hash: both tables are filled with -1, then every particle is entered.\<close>

definition rebuildGrid :: "ParticleEngine \<Rightarrow> ParticleEngine" where
  "rebuildGrid e =
     fold gridStep [0..<MAX_PARTICLES] (e\<lparr>hashTable := (\<lambda>_. - 1), nextEntry := (\<lambda>_. - 1)\<rparr>)"

definition animate :: "real \<Rightarrow> ParticleEngine \<Rightarrow> ParticleEngine" where
  "animate handOpenness e =
     (if isDisposed e then e
      else fold (particleStep handOpenness) [0..<MAX_PARTICLES] (rebuildGrid (startFrame e)))"

text \<open>The engine as the particle loop of \<^verbatim>\<open>animate\<close> finds it when it reaches particle i.\<close>

definition beforeParticle :: "real \<Rightarrow> nat \<Rightarrow> ParticleEngine \<Rightarrow> ParticleEngine" where
  "beforeParticle handOpenness i e =
     fold (particleStep handOpenness) [0..<i] (rebuildGrid (startFrame e))"

section \<open>Sequences of calls\<close>

text \<open>The entry points a client can call, and a sequence of calls run from left to right.\<close>

datatype call =
    Animate real
  | HandleScroll real
  | UpdateConfig PartialConfig
  | SetCustomShape "Point3D list"
  | Dispose

fun perform :: "ThreeColor \<Rightarrow> call \<Rightarrow> ParticleEngine \<Rightarrow> ParticleEngine" where
  "perform three (Animate handOpenness) e = animate handOpenness e"
| "perform three (HandleScroll deltaY) e = handleScroll deltaY e"
| "perform three (UpdateConfig n) e = updateConfig three n e"
| "perform three (SetCustomShape points) e = setCustomShape points e"
| "perform three Dispose e = dispose e"

definition run :: "ThreeColor \<Rightarrow> call list \<Rightarrow> ParticleEngine \<Rightarrow> ParticleEngine" where
  "run three calls e = fold (perform three) calls e"


section \<open>Reading the buffers\<close>

text \<open>The three components particle i has in a buffer.\<close>

definition triple :: "(nat \<Rightarrow> real) \<Rightarrow> nat \<Rightarrow> real \<times> real \<times> real" where
  "triple buf i = (buf (i * 3), buf (i * 3 + 1), buf (i * 3 + 2))"

text \<open>The target of particle i after a regeneration that starts with the draws \<open>rnd\<close>:
  the sentinel from index \<open>count\<close> on, the generator's point below it. All particles
  below i are active then, and each has consumed the draws of one generator call.\<close>

definition regenerated :: "ShapeType \<Rightarrow> int \<Rightarrow> Point3D list \<Rightarrow> (nat \<Rightarrow> real) \<Rightarrow> nat \<Rightarrow> real \<times> real \<times> real" where
  "regenerated sh count pts rnd i =
     (if int i \<ge> count then (9999, 9999, 9999)
      else shapeTarget sh pts i (dropDraws (shapeDraws sh pts * i) rnd))"

text \<open>Every entry of the two tables is -1 or a particle index.\<close>

definition gridEntriesOk :: "ParticleEngine \<Rightarrow> bool" where
  "gridEntriesOk e \<longleftrightarrow>
     (\<forall>k. hashTable e k = - 1 \<or> (0 \<le> hashTable e k \<and> hashTable e k < int MAX_PARTICLES))
     \<and> (\<forall>k. nextEntry e k = - 1 \<or> (0 \<le> nextEntry e k \<and> nextEntry e k < int MAX_PARTICLES))"

section \<open>The blend as the specification words it\<close>

text \<open>Vectors are triples. \<open>spec_perturbed\<close> is the specification's
  \<^verbatim>\<open>target += dir * (openness * 60 * spread)\<close> with \<^verbatim>\<open>dir = target / (|target| + 0.1)\<close>,
  followed by the jitter \<^verbatim>\<open>(u - 0.5) * (openness * 0.8)\<close> on each axis; \<open>spec_smooth\<close> is
  \<^verbatim>\<open>position += (target - position) * cohesionSpeed\<close>.\<close>

definition vnorm :: "real \<times> real \<times> real \<Rightarrow> real" where
  "vnorm v = (case v of (a, b, c) \<Rightarrow> sqrt (a * a + b * b + c * c))"







section \<open>Concrete engines and inputs\<close>

text \<open>The configuration the constructor starts from, with every draw of the random source
  equal to 1/2 and all buffers zero.\<close>

definition engine0 :: ParticleEngine where
  "engine0 =
     \<lparr>positions = (\<lambda>_. 0), targetPositions = (\<lambda>_. 0), colors = (\<lambda>_. 0),
      hashTable = (\<lambda>_. - 1), nextEntry = (\<lambda>_. - 1),
      currentConfig = \<lparr>density = 0.5, spread = 0.5, color = ''#00ffff'', shape = NEBULA\<rparr>,
      customShapePoints = [], scrollVelocity = 0, isDisposed = False,
      particlesRotationY = 0, bgStarsRotationY = 0, randomSrc = (\<lambda>_. 1 / 2)\<rparr>"

definition withShape :: "ShapeType \<Rightarrow> ParticleEngine \<Rightarrow> ParticleEngine" where
  "withShape sh e = e\<lparr>currentConfig := (currentConfig e)\<lparr>shape := sh\<rparr>\<rparr>"

definition threePoints :: "Point3D list" where
  "threePoints = [\<lparr>px = 1, py = 2, pz = 3\<rparr>, \<lparr>px = 4, py = 5, pz = 6\<rparr>, \<lparr>px = 7, py = 8, pz = 9\<rparr>]"

text \<open>A colour library, fixed for the concrete runs.\<close>

definition three0 :: ThreeColor where
  "three0 = \<lparr>parseColor = (\<lambda>_. (0, 1, 1)), setHSL = (\<lambda>h s l. (h, s, l))\<rparr>"

text \<open>The engine after a first regeneration: shape Nebula, density 0.5, so particles from
  12500 on are hidden.\<close>

definition regenerated0 :: ParticleEngine where
  "regenerated0 = updateTargetShape engine0"





text \<open>An engine with shape Custom and no custom point, regenerated and then disposed.\<close>

definition disposedCustom :: ParticleEngine where
  "disposedCustom = dispose (updateTargetShape (withShape CUSTOM engine0))"

text \<open>An engine regenerated from a random source whose first five draws are 1/2 and all
  later ones 1/4, and two partial configurations.\<close>

definition varyingEngine :: ParticleEngine where
  "varyingEngine = updateTargetShape (engine0\<lparr>randomSrc := (\<lambda>n. if n < 5 then 1 / 2 else 1 / 4)\<rparr>)"

definition onlyShape :: "ShapeType \<Rightarrow> PartialConfig" where
  "onlyShape sh = \<lparr>newDensity = None, newSpread = None, newColor = None, newShape = Some sh\<rparr>"

definition onlySpread :: "real \<Rightarrow> PartialConfig" where
  "onlySpread s = \<lparr>newDensity = None, newSpread = Some s, newColor = None, newShape = None\<rparr>"


section \<open>Frame lemmas\<close>

lemma gridStep_frame:
  "positions (gridStep i e) = positions e"
  "targetPositions (gridStep i e) = targetPositions e"
  "colors (gridStep i e) = colors e"
  "currentConfig (gridStep i e) = currentConfig e"
  "customShapePoints (gridStep i e) = customShapePoints e"
  "randomSrc (gridStep i e) = randomSrc e"
  "scrollVelocity (gridStep i e) = scrollVelocity e"
  "isDisposed (gridStep i e) = isDisposed e"
  by (simp_all add: gridStep_def Let_def)

lemma fold_gridStep_frame:
  "positions (fold gridStep js e) = positions e"
  "targetPositions (fold gridStep js e) = targetPositions e"
  "colors (fold gridStep js e) = colors e"
  "currentConfig (fold gridStep js e) = currentConfig e"
  "customShapePoints (fold gridStep js e) = customShapePoints e"
  "randomSrc (fold gridStep js e) = randomSrc e"
  "scrollVelocity (fold gridStep js e) = scrollVelocity e"
  "isDisposed (fold gridStep js e) = isDisposed e"
  by (induction js arbitrary: e) (simp_all add: gridStep_frame)

lemma particleStep_frame:
  "targetPositions (particleStep h i e) = targetPositions e"
  "colors (particleStep h i e) = colors e"
  "currentConfig (particleStep h i e) = currentConfig e"
  "customShapePoints (particleStep h i e) = customShapePoints e"
  "scrollVelocity (particleStep h i e) = scrollVelocity e"
  "isDisposed (particleStep h i e) = isDisposed e"
  "hashTable (particleStep h i e) = hashTable e"
  "nextEntry (particleStep h i e) = nextEntry e"
  by (simp_all add: particleStep_def repelPhase_def blendStep_def Let_def split: prod.splits)

lemma fold_particleStep_frame:
  "targetPositions (fold (particleStep h) js e) = targetPositions e"
  "colors (fold (particleStep h) js e) = colors e"
  "currentConfig (fold (particleStep h) js e) = currentConfig e"
  "customShapePoints (fold (particleStep h) js e) = customShapePoints e"
  "scrollVelocity (fold (particleStep h) js e) = scrollVelocity e"
  "isDisposed (fold (particleStep h) js e) = isDisposed e"
  "hashTable (fold (particleStep h) js e) = hashTable e"
  "nextEntry (fold (particleStep h) js e) = nextEntry e"
  by (induction js arbitrary: e) (simp_all add: particleStep_frame)

section \<open>Indices stay inside the arrays\<close>

text \<open>A hash is below \<open>hashSize\<close>, and after the grid is rebuilt every table entry is -1
  or a particle index, so the neighbour loop reads the position of a particle.\<close>

lemma cellHash_lt: "cellHash x y z < hashSize"
proof -
  have "unat (w AND (16383 :: 32 word)) \<le> 16383" for w :: "32 word"
  proof -
    have "w AND 16383 \<le> (16383 :: 32 word)" by (rule word_and_le1)
    then have "unat (w AND 16383) \<le> unat (16383 :: 32 word)" by (simp only: word_le_nat_alt)
    then show ?thesis by simp
  qed
  then show ?thesis
    by (simp add: cellHash_def hashSize_def Let_def less_Suc_eq_le [symmetric])
qed

lemma gridStep_ok: "i < MAX_PARTICLES \<Longrightarrow> gridEntriesOk e \<Longrightarrow> gridEntriesOk (gridStep i e)"
  by (auto simp add: gridEntriesOk_def gridStep_def Let_def)

lemma fold_gridStep_ok:
  "\<forall>i \<in> set js. i < MAX_PARTICLES \<Longrightarrow> gridEntriesOk e \<Longrightarrow> gridEntriesOk (fold gridStep js e)"
  by (induction js arbitrary: e) (simp_all add: gridStep_ok)

lemma rebuildGrid_ok: "gridEntriesOk (rebuildGrid e)"
  unfolding rebuildGrid_def
  by (rule fold_gridStep_ok) (simp_all add: gridEntriesOk_def)

section \<open>Regeneration of the targets\<close>

lemma dropDraws_dropDraws: "dropDraws a (dropDraws b r) = dropDraws (b + a) r"
  by (simp add: dropDraws_def fun_eq_iff ac_simps)

lemma dropDraws_0: "dropDraws 0 r = r"
  by (simp add: dropDraws_def)

lemma targetStep_frame:
  "positions (targetStep sh c i e) = positions e"
  "colors (targetStep sh c i e) = colors e"
  "currentConfig (targetStep sh c i e) = currentConfig e"
  "customShapePoints (targetStep sh c i e) = customShapePoints e"
  "scrollVelocity (targetStep sh c i e) = scrollVelocity e"
  "isDisposed (targetStep sh c i e) = isDisposed e"
  by (simp_all add: targetStep_def split: prod.splits)

lemma fold_targetStep_frame:
  "positions (fold (targetStep sh c) js e) = positions e"
  "colors (fold (targetStep sh c) js e) = colors e"
  "currentConfig (fold (targetStep sh c) js e) = currentConfig e"
  "customShapePoints (fold (targetStep sh c) js e) = customShapePoints e"
  "scrollVelocity (fold (targetStep sh c) js e) = scrollVelocity e"
  "isDisposed (fold (targetStep sh c) js e) = isDisposed e"
  by (induction js arbitrary: e) (simp_all add: targetStep_frame)

lemma targetStep_random:
  "randomSrc (targetStep sh c i e) =
     dropDraws (if int i \<ge> c then 0 else shapeDraws sh (customShapePoints e)) (randomSrc e)"
  by (simp add: targetStep_def dropDraws_0 split: prod.splits)


lemma fold_targetStep_random:
  "randomSrc (fold (targetStep sh c) [0..<n] e) =
     dropDraws (shapeDraws sh (customShapePoints e) * min n (nat c)) (randomSrc e)"
proof (induction n)
  case 0
  show ?case by (simp add: dropDraws_0)
next
  case (Suc n)
  show ?case
  proof (cases "int n \<ge> c")
    case True
    then have "min (Suc n) (nat c) = min n (nat c)" by linarith
    with True Suc show ?thesis
      by (simp add: targetStep_random dropDraws_0)
  next
    case False
    then have "min (Suc n) (nat c) = Suc n" "min n (nat c) = n" by linarith+
    with False Suc show ?thesis
      by (simp add: targetStep_random dropDraws_dropDraws fold_targetStep_frame add.commute)
  qed
qed

lemma targetStep_other:
  "j \<noteq> i \<Longrightarrow> triple (targetPositions (targetStep sh c i e)) j = triple (targetPositions e) j"
  by (auto simp add: targetStep_def triple_def split: prod.splits)

lemma targetStep_self:
  "triple (targetPositions (targetStep sh c i e)) i =
     (if int i \<ge> c then (9999, 9999, 9999)
      else shapeTarget sh (customShapePoints e) i (randomSrc e))"
  by (auto simp add: targetStep_def triple_def split: prod.splits)

lemma targetStep_raw:
  "i * 3 + 2 < j \<or> j < i * 3 \<Longrightarrow> targetPositions (targetStep sh c i e) j = targetPositions e j"
  by (auto simp add: targetStep_def split: prod.splits)

lemma fold_targetStep_beyond:
  "n * 3 \<le> j \<Longrightarrow> targetPositions (fold (targetStep sh c) [0..<n] e) j = targetPositions e j"
  by (induction n) (simp_all add: targetStep_raw)

lemma fold_targetStep_triple:
  "i < n \<Longrightarrow> triple (targetPositions (fold (targetStep sh c) [0..<n] e)) i =
      regenerated sh c (customShapePoints e) (randomSrc e) i"
proof (induction n)
  case 0
  then show ?case by simp
next
  case (Suc n)
  show ?case
  proof (cases "i = n")
    case True
    have "int n < c \<Longrightarrow> min n (nat c) = n" by linarith
    then show ?thesis using True
      by (simp add: targetStep_self regenerated_def fold_targetStep_frame fold_targetStep_random)
  next
    case False
    with Suc show ?thesis by (simp add: targetStep_other)
  qed
qed

lemma sphere_sq:
  "(r * sin p * cos t)\<^sup>2 + (r * sin p * sin t)\<^sup>2 + (r * cos p)\<^sup>2 = r\<^sup>2" for r p t :: real
proof -
  have t: "(cos t)\<^sup>2 + (sin t)\<^sup>2 = 1" by simp
  have p: "(sin p)\<^sup>2 + (cos p)\<^sup>2 = 1" by simp
  have "(r * sin p * cos t)\<^sup>2 + (r * sin p * sin t)\<^sup>2 + (r * cos p)\<^sup>2
        = r\<^sup>2 * (sin p)\<^sup>2 * ((cos t)\<^sup>2 + (sin t)\<^sup>2) + r\<^sup>2 * (cos p)\<^sup>2"
    by (simp only: power_mult_distrib distrib_left)
  also have "\<dots> = r\<^sup>2 * ((sin p)\<^sup>2 + (cos p)\<^sup>2)"
    by (simp only: t distrib_left mult_1_right)
  also have "\<dots> = r\<^sup>2"
    by (simp only: p mult_1_right)
  finally show ?thesis .
qed

lemma sphereTarget_vnorm:
  assumes "0 \<le> rnd 0"
  shows "vnorm (sphereTarget rnd) = 12 * root 3 (rnd 0)"
proof -
  let ?r = "12 * root 3 (rnd 0)"
  have r0: "0 \<le> ?r" using assms by simp
  have "vnorm (sphereTarget rnd) = sqrt (?r\<^sup>2)"
    unfolding sphereTarget_def vnorm_def Let_def prod.case
    using sphere_sq[of ?r "arccos (2 * rnd 2 - 1)" "rnd 1 * 2 * pi"]
    by (simp only: power2_eq_square)
  also have "\<dots> = ?r" by (simp only: real_sqrt_abs abs_of_nonneg[OF r0])
  finally show ?thesis .
qed

lemma cbrt_le_one: "0 \<le> u \<Longrightarrow> u \<le> 1 \<Longrightarrow> 12 * root 3 u \<le> 12" for u :: real
proof -
  assume "0 \<le> u" "u \<le> 1"
  then have "root 3 u \<le> root 3 1" by (simp del: real_root_one)
  then show ?thesis by simp
qed



lemma updateTargetShape_triple:
  "i < MAX_PARTICLES \<Longrightarrow>
     triple (targetPositions (updateTargetShape e)) i =
       regenerated (shape (currentConfig e)) (activeCount e) (customShapePoints e) (randomSrc e) i"
  by (simp add: updateTargetShape_def fold_targetStep_triple)


section \<open>Bounds on the generated points\<close>

















section \<open>The particle loop writes particle i only in iteration i\<close>

lemma repelStep_frame:
  "k \<noteq> i * 3 \<Longrightarrow> k \<noteq> i * 3 + 1 \<Longrightarrow> k \<noteq> i * 3 + 2 \<Longrightarrow> repelStep i nb pos k = pos k"
  by (simp add: repelStep_def Let_def)

lemma repelLoop_frame:
  "k \<noteq> i * 3 \<Longrightarrow> k \<noteq> i * 3 + 1 \<Longrightarrow> k \<noteq> i * 3 + 2 \<Longrightarrow> repelLoop i nxt nb c pos k = pos k"
proof (induction i nxt nb c pos rule: repelLoop.induct)
  case (1 i nxt neighbor checkCount pos)
  show ?case
  proof (cases "neighbor \<noteq> - 1 \<and> checkCount < maxChecks")
    case True
    then have "repelLoop i nxt neighbor checkCount pos k =
                 repelLoop i nxt (nxt (nat neighbor)) (checkCount + 1) (repelStep i neighbor pos) k"
      by (subst repelLoop.simps) simp
    also have "\<dots> = repelStep i neighbor pos k"
      using 1 True by simp
    also have "\<dots> = pos k" using 1(2-4) by (rule repelStep_frame)
    finally show ?thesis .
  next
    case False
    then show ?thesis by (subst repelLoop.simps) auto
  qed
qed

lemma particle_indices:
  "j \<noteq> i \<Longrightarrow> d < 3 \<Longrightarrow> i * 3 + d \<noteq> j * 3 \<and> i * 3 + d \<noteq> j * 3 + 1 \<and> i * 3 + d \<noteq> j * 3 + 2" for i j d :: nat
  by presburger

lemma blendStep_positions:
  "k \<noteq> i * 3 \<Longrightarrow> k \<noteq> i * 3 + 1 \<Longrightarrow> k \<noteq> i * 3 + 2 \<Longrightarrow> positions (blendStep h i e) k = positions e k"
  by (simp add: blendStep_def Let_def split: prod.splits)

lemma particleStep_positions:
  "k \<noteq> i * 3 \<Longrightarrow> k \<noteq> i * 3 + 1 \<Longrightarrow> k \<noteq> i * 3 + 2 \<Longrightarrow> positions (particleStep h i e) k = positions e k"
  by (simp add: particleStep_def repelPhase_def Let_def repelLoop_frame blendStep_positions)

lemma particleStep_other:
  "j \<noteq> i \<Longrightarrow> triple (positions (particleStep h j e)) i = triple (positions e) i"
  using particle_indices[of j i 0] particle_indices[of j i 1] particle_indices[of j i 2]
  by (simp add: triple_def particleStep_positions)

lemma fold_particleStep_other:
  "i \<notin> set js \<Longrightarrow> triple (positions (fold (particleStep h) js e)) i = triple (positions e) i"
proof (induction js arbitrary: e)
  case Nil
  show ?case by simp
next
  case (Cons j js)
  then have "triple (positions (fold (particleStep h) js (particleStep h j e))) i =
               triple (positions (particleStep h j e)) i" by simp
  also have "\<dots> = triple (positions e) i" using Cons.prems by (simp add: particleStep_other)
  finally show ?case by simp
qed

lemma startFrame_frame:
  "positions (startFrame e) = positions e"
  "targetPositions (startFrame e) = targetPositions e"
  "randomSrc (startFrame e) = randomSrc e"
  "currentConfig (startFrame e) = currentConfig e"
  by (simp_all add: startFrame_def Let_def)

lemma rebuildGrid_frame:
  "positions (rebuildGrid e) = positions e"
  "targetPositions (rebuildGrid e) = targetPositions e"
  "randomSrc (rebuildGrid e) = randomSrc e"
  "currentConfig (rebuildGrid e) = currentConfig e"
  by (simp_all add: rebuildGrid_def fold_gridStep_frame)

lemma beforeParticle_frame:
  "targetPositions (beforeParticle h i e) = targetPositions e"
  "currentConfig (beforeParticle h i e) = currentConfig e"
  "triple (positions (beforeParticle h i e)) i = triple (positions e) i"
  by (simp_all add: beforeParticle_def fold_particleStep_frame fold_particleStep_other
        rebuildGrid_frame startFrame_frame)



text \<open>What \<open>animate\<close> leaves at particle i is what the loop body for i leaves there.\<close>

lemma animate_particle:
  assumes "\<not> isDisposed e" "i < MAX_PARTICLES"
  shows "triple (positions (animate h e)) i =
           triple (positions (particleStep h i (beforeParticle h i e))) i"
proof -
  have split: "[0..<MAX_PARTICLES] = [0..<i] @ i # [Suc i..<MAX_PARTICLES]"
    using assms(2) by (metis upt_conv_Cons upt_add_eq_append le0 le_add_diff_inverse less_imp_le_nat plus_nat.add_0)
  have "animate h e = fold (particleStep h) [Suc i..<MAX_PARTICLES]
                        (particleStep h i (beforeParticle h i e))"
    using assms(1) by (simp add: animate_def beforeParticle_def split)
  then show ?thesis by (simp add: fold_particleStep_other)
qed

lemma particleStep_hidden:
  "targetPositions e (i * 3) > 9000 \<Longrightarrow>
     particleStep h i e = e\<lparr>positions := (positions e)(i * 3 := 9999)\<rparr>"
  by (simp add: particleStep_def)


lemma animate_hidden:
  assumes "\<not> isDisposed e" "i < MAX_PARTICLES" "targetPositions e (i * 3) > 9000"
  shows "triple (positions (animate h e)) i = (9999, positions e (i * 3 + 1), positions e (i * 3 + 2))"
proof -
  let ?b = "beforeParticle h i e"
  have p: "triple (positions ?b) i = triple (positions e) i" by (rule beforeParticle_frame)
  have "triple (positions (particleStep h i ?b)) i = (9999, positions ?b (i * 3 + 1), positions ?b (i * 3 + 2))"
    using assms(3) by (simp add: particleStep_def beforeParticle_frame triple_def)
  also have "\<dots> = (9999, positions e (i * 3 + 1), positions e (i * 3 + 2))"
    using p by (simp add: triple_def)
  finally show ?thesis using assms(1,2) by (simp add: animate_particle)
qed


section \<open>Blend and repulsion\<close>










section \<open>Configuration updates, disposal and scroll momentum\<close>

lemma paint_frame:
  "targetPositions (paintMulti three i e) = targetPositions e"
  "currentConfig (paintMulti three i e) = currentConfig e"
  "customShapePoints (paintMulti three i e) = customShapePoints e"
  "scrollVelocity (paintMulti three i e) = scrollVelocity e"
  "isDisposed (paintMulti three i e) = isDisposed e"
  "positions (paintMulti three i e) = positions e"
  "targetPositions (paintSingle c i e) = targetPositions e"
  "currentConfig (paintSingle c i e) = currentConfig e"
  "customShapePoints (paintSingle c i e) = customShapePoints e"
  "scrollVelocity (paintSingle c i e) = scrollVelocity e"
  "isDisposed (paintSingle c i e) = isDisposed e"
  "positions (paintSingle c i e) = positions e"
  "randomSrc (paintSingle c i e) = randomSrc e"
  by (simp_all add: paintMulti_def paintSingle_def split: prod.splits)

lemma fold_paintMulti_frame:
  "targetPositions (fold (paintMulti three) js e) = targetPositions e"
  "currentConfig (fold (paintMulti three) js e) = currentConfig e"
  "customShapePoints (fold (paintMulti three) js e) = customShapePoints e"
  "scrollVelocity (fold (paintMulti three) js e) = scrollVelocity e"
  "isDisposed (fold (paintMulti three) js e) = isDisposed e"
  "positions (fold (paintMulti three) js e) = positions e"
  by (induction js arbitrary: e) (simp_all add: paint_frame)

lemma fold_paintSingle_frame:
  "targetPositions (fold (paintSingle c) js e) = targetPositions e"
  "currentConfig (fold (paintSingle c) js e) = currentConfig e"
  "customShapePoints (fold (paintSingle c) js e) = customShapePoints e"
  "scrollVelocity (fold (paintSingle c) js e) = scrollVelocity e"
  "isDisposed (fold (paintSingle c) js e) = isDisposed e"
  "positions (fold (paintSingle c) js e) = positions e"
  "randomSrc (fold (paintSingle c) js e) = randomSrc e"
  by (induction js arbitrary: e) (simp_all add: paint_frame)

lemma repaint_frame:
  "targetPositions (repaint three n e) = targetPositions e"
  "currentConfig (repaint three n e) = currentConfig e"
  "customShapePoints (repaint three n e) = customShapePoints e"
  "scrollVelocity (repaint three n e) = scrollVelocity e"
  "isDisposed (repaint three n e) = isDisposed e"
  "positions (repaint three n e) = positions e"
  by (simp_all add: repaint_def fold_paintMulti_frame fold_paintSingle_frame split: option.splits)

lemma updateTargetShape_frame:
  "positions (updateTargetShape e) = positions e"
  "colors (updateTargetShape e) = colors e"
  "currentConfig (updateTargetShape e) = currentConfig e"
  "customShapePoints (updateTargetShape e) = customShapePoints e"
  "scrollVelocity (updateTargetShape e) = scrollVelocity e"
  "isDisposed (updateTargetShape e) = isDisposed e"
  by (simp_all add: updateTargetShape_def fold_targetStep_frame)

lemma updateTargetShape_random:
  "randomSrc (updateTargetShape e) =
     dropDraws (shapeDraws (shape (currentConfig e)) (customShapePoints e)
                  * min MAX_PARTICLES (nat (activeCount e))) (randomSrc e)"
  by (simp add: updateTargetShape_def fold_targetStep_random)

lemma updateConfig_keeps_targets:
  "newShape n = None \<Longrightarrow> newDensity n = None \<Longrightarrow>
     targetPositions (updateConfig three n e) = targetPositions e"
  by (simp add: updateConfig_def Let_def repaint_frame)

lemma updateConfig_regenerates:
  assumes "\<not> isDisposed e" and "newShape n \<noteq> None \<or> newDensity n \<noteq> None" and "i < MAX_PARTICLES"
  shows "triple (targetPositions (updateConfig three n e)) i =
           regenerated (shape (mergeConfig (currentConfig e) n))
             \<lfloor>real MAX_PARTICLES * density (mergeConfig (currentConfig e) n)\<rfloor>
             (customShapePoints e)
             (randomSrc (repaint three n (e\<lparr>currentConfig := mergeConfig (currentConfig e) n\<rparr>))) i"
proof -
  let ?e2 = "repaint three n (e\<lparr>currentConfig := mergeConfig (currentConfig e) n\<rparr>)"
  have "updateConfig three n e = updateTargetShape ?e2"
    using assms(1,2) by (auto simp add: updateConfig_def Let_def)
  then show ?thesis
    using assms(3) by (simp add: updateTargetShape_triple repaint_frame activeCount_def)
qed

lemma disposed_noop:
  "isDisposed e \<Longrightarrow> updateConfig three n e = e \<and> animate h e = e \<and> handleScroll d e = e"
  by (simp add: updateConfig_def animate_def handleScroll_def)

lemma decayScroll_le: "v \<le> 0.3 \<Longrightarrow> decayScroll v \<le> 0.3"
  by (simp add: decayScroll_def Let_def)

lemma animate_scroll:
  "scrollVelocity (animate h e) = (if isDisposed e then scrollVelocity e else decayScroll (scrollVelocity e))"
  by (simp add: animate_def fold_particleStep_frame rebuildGrid_def fold_gridStep_frame startFrame_def Let_def)

lemma handleScroll_scroll:
  "\<not> isDisposed e \<Longrightarrow> scrollVelocity (handleScroll d e) = min 0.3 (scrollVelocity e + \<bar>d\<bar> * 0.0005)"
  by (simp add: handleScroll_def Let_def min_def)

lemma perform_scroll_le:
  "scrollVelocity e \<le> 0.3 \<Longrightarrow> scrollVelocity (perform three c e) \<le> 0.3"
proof (cases c)
  case (Animate h)
  assume "scrollVelocity e \<le> 0.3"
  then show ?thesis using Animate decayScroll_le[of "scrollVelocity e"] by (simp add: animate_scroll)
next
  case (HandleScroll d)
  assume "scrollVelocity e \<le> 0.3"
  then show ?thesis using HandleScroll by (simp add: handleScroll_def Let_def)
next
  case (UpdateConfig n)
  assume "scrollVelocity e \<le> 0.3"
  then show ?thesis using UpdateConfig
    by (simp add: updateConfig_def Let_def updateTargetShape_frame repaint_frame)
next
  case (SetCustomShape pts)
  assume "scrollVelocity e \<le> 0.3"
  then show ?thesis using SetCustomShape
    by (simp add: setCustomShape_def Let_def updateTargetShape_frame)
next
  case Dispose
  assume "scrollVelocity e \<le> 0.3"
  then show ?thesis using Dispose by (simp add: dispose_def)
qed

lemma run_scroll_le:
  "scrollVelocity e \<le> 0.3 \<Longrightarrow> scrollVelocity (run three calls e) \<le> 0.3"
proof (induction calls arbitrary: e)
  case Nil
  then show ?case by (simp add: run_def)
next
  case (Cons c calls)
  have "scrollVelocity (perform three c e) \<le> 0.3"
    using Cons.prems by (rule perform_scroll_le)
  then have "scrollVelocity (run three calls (perform three c e)) \<le> 0.3"
    by (rule Cons.IH)
  then show ?case by (simp add: run_def)
qed


section \<open>Facts about the concrete inputs\<close>

lemma nebula_z: "snd (snd (nebulaTarget rnd)) = (rnd 4 - 0.5) * 10"
  by (simp add: nebulaTarget_def Let_def)

lemma triple_z: "snd (snd (triple buf 0)) = buf 2"
  by (simp add: triple_def numeral_2_eq_2)

lemma regenerated0_facts:
  "\<not> isDisposed regenerated0"
  "positions regenerated0 = (\<lambda>_. 0)"
  "activeCount regenerated0 = 12500"
  "triple (targetPositions regenerated0) 20000 = (9999, 9999, 9999)"
  "targetPositions regenerated0 60000 = 9999"
proof -
  show "\<not> isDisposed regenerated0" "positions regenerated0 = (\<lambda>_. 0)"
    by (simp_all add: regenerated0_def updateTargetShape_frame engine0_def)
  show "activeCount regenerated0 = 12500"
    by (simp add: regenerated0_def activeCount_def updateTargetShape_frame engine0_def MAX_PARTICLES_def)
  show t: "triple (targetPositions regenerated0) 20000 = (9999, 9999, 9999)"
    by (simp add: regenerated0_def updateTargetShape_triple regenerated_def activeCount_def
          engine0_def MAX_PARTICLES_def)
  then show "targetPositions regenerated0 60000 = 9999"
    by (simp add: triple_def)
qed

lemma varyingEngine_facts:
  "\<not> isDisposed varyingEngine"
  "currentConfig varyingEngine = \<lparr>density = 0.5, spread = 0.5, color = ''#00ffff'', shape = NEBULA\<rparr>"
  "customShapePoints varyingEngine = []"
  "randomSrc varyingEngine = (\<lambda>n. 1 / 4)"
  "targetPositions varyingEngine 2 = 0"
proof -
  show "\<not> isDisposed varyingEngine"
    "currentConfig varyingEngine = \<lparr>density = 0.5, spread = 0.5, color = ''#00ffff'', shape = NEBULA\<rparr>"
    "customShapePoints varyingEngine = []"
    by (simp_all add: varyingEngine_def updateTargetShape_frame engine0_def)
  show "randomSrc varyingEngine = (\<lambda>n. 1 / 4)"
    by (simp add: varyingEngine_def updateTargetShape_random engine0_def activeCount_def
          MAX_PARTICLES_def dropDraws_def)
  have "triple (targetPositions varyingEngine) 0 = nebulaTarget (\<lambda>n. if n < 5 then 1 / 2 else 1 / 4)"
    by (simp add: varyingEngine_def updateTargetShape_triple regenerated_def engine0_def
          activeCount_def MAX_PARTICLES_def dropDraws_def)
  then have "snd (snd (triple (targetPositions varyingEngine) 0)) = 0"
    by (simp add: nebula_z)
  then show "targetPositions varyingEngine 2 = 0" by (simp add: triple_z)
qed





section \<open>Claims\<close>

text \<open>
  C1. The claim is that every mutating call on a disposed engine leaves configuration and
  buffers unchanged. \<open>updateConfig\<close> and \<open>animate\<close> test the flag first (lemma
  \<open>disposed_noop\<close>); \<open>setCustomShape\<close> does not. On the disposed engine
  \<open>disposedCustom\<close>, whose shape is Custom, particle 0 has the target (0, 0, 0), and after
  \<open>setCustomShape\<close> with three points it has the target (1, 2, 3): the target buffer has
  been regenerated.
\<close>

theorem setCustomShape_after_dispose:
  "isDisposed disposedCustom
   \<and> shape (currentConfig disposedCustom) = CUSTOM
   \<and> triple (targetPositions disposedCustom) 0 = (0, 0, 0)
   \<and> triple (targetPositions (setCustomShape threePoints disposedCustom)) 0 = (1, 2, 3)"
proof -
  have a: "isDisposed disposedCustom" by (simp add: disposedCustom_def dispose_def)
  have b: "shape (currentConfig disposedCustom) = CUSTOM"
    by (simp add: disposedCustom_def dispose_def updateTargetShape_frame withShape_def)
  have c: "triple (targetPositions disposedCustom) 0 = (0, 0, 0)"
    by (simp add: disposedCustom_def dispose_def updateTargetShape_triple regenerated_def
          withShape_def engine0_def MAX_PARTICLES_def activeCount_def customTarget_def
          dropDraws_def)
  let ?e1 = "disposedCustom\<lparr>customShapePoints := threePoints\<rparr>"
  have r: "randomSrc disposedCustom = (\<lambda>_. 1 / 2)"
    by (simp add: disposedCustom_def dispose_def updateTargetShape_random withShape_def
          engine0_def dropDraws_def)
  have ac: "activeCount ?e1 = 12500"
    by (simp add: activeCount_def disposedCustom_def dispose_def updateTargetShape_frame
          withShape_def engine0_def MAX_PARTICLES_def)
  have "setCustomShape threePoints disposedCustom = updateTargetShape ?e1"
    using b by (simp add: setCustomShape_def Let_def)
  then have "triple (targetPositions (setCustomShape threePoints disposedCustom)) 0 =
               customTarget threePoints 0 (\<lambda>_. 1 / 2)"
    using b by (simp add: updateTargetShape_triple regenerated_def MAX_PARTICLES_def ac r
          dropDraws_def)
  then have d: "triple (targetPositions (setCustomShape threePoints disposedCustom)) 0 = (1, 2, 3)"
    by (simp add: customTarget_def threePoints_def)
  from a b c d show ?thesis by simp
qed

text \<open>
  C2, as the code has it. For every particle i whose target has an x component above 9000
  (every hidden particle, whose target is the sentinel), one \<open>animate\<close> step of a live engine
  stores 9999 in the x component of its position and leaves the y and z components as they
  were; the loop body for i does nothing else, so the particle is skipped by the blend and
  by the repulsion.
\<close>

theorem hidden_particle_snap:
  assumes "\<not> isDisposed e" and "i < MAX_PARTICLES" and "targetPositions e (i * 3) > 9000"
  shows "triple (positions (animate h e)) i = (9999, positions e (i * 3 + 1), positions e (i * 3 + 2))
       \<and> particleStep h i (beforeParticle h i e) =
           (beforeParticle h i e)\<lparr>positions := (positions (beforeParticle h i e))(i * 3 := 9999)\<rparr>"
  using assms animate_hidden[of e i h] particleStep_hidden[of "beforeParticle h i e" i h]
  by (simp add: beforeParticle_frame)

theorem hidden_particle_snap_witness:
  "\<not> isDisposed regenerated0 \<and> 20000 < MAX_PARTICLES
   \<and> targetPositions regenerated0 (20000 * 3) > 9000
   \<and> triple (positions (animate (1 / 2) regenerated0)) 20000 = (9999, 0, 0)"
  using hidden_particle_snap[of regenerated0 20000 "1 / 2"]
  by (simp add: regenerated0_facts MAX_PARTICLES_def)

text \<open>
  C2 as stated fails: hidden particle 20000 of \<open>regenerated0\<close> has the sentinel as target,
  and after one \<open>animate\<close> step the y component of its position is still 0, not 9999.
\<close>

theorem hidden_particle_not_all_sentinel:
  "\<not> isDisposed regenerated0 \<and> activeCount regenerated0 \<le> int 20000
   \<and> triple (targetPositions regenerated0) 20000 = (9999, 9999, 9999)
   \<and> positions (animate (1 / 2) regenerated0) (20000 * 3 + 1) \<noteq> 9999"
proof -
  have "triple (positions (animate (1 / 2) regenerated0)) 20000 = (9999, 0, 0)"
    using animate_hidden[of regenerated0 20000 "1 / 2"]
    by (simp add: regenerated0_facts MAX_PARTICLES_def)
  then have "positions (animate (1 / 2) regenerated0) (20000 * 3 + 1) = 0"
    by (simp add: triple_def)
  then show ?thesis by (simp add: regenerated0_facts)
qed

text \<open>
  C3, as the code has it. \<open>updateConfig\<close> regenerates the targets exactly when the partial
  configuration carries a shape or a density key, whether or not the value differs from the
  current one: with neither key the target buffer is unchanged (in particular when only
  spread or colour are given); with one of them, on a live engine, every particle gets the
  regenerated target for the merged configuration, computed from the draws left after the
  repaint.
\<close>

theorem updateConfig_regeneration:
  "(newShape n = None \<and> newDensity n = None \<longrightarrow>
      targetPositions (updateConfig three n e) = targetPositions e)
   \<and> (\<not> isDisposed e \<and> (newShape n \<noteq> None \<or> newDensity n \<noteq> None) \<and> i < MAX_PARTICLES \<longrightarrow>
      triple (targetPositions (updateConfig three n e)) i =
        regenerated (shape (mergeConfig (currentConfig e) n))
          \<lfloor>real MAX_PARTICLES * density (mergeConfig (currentConfig e) n)\<rfloor>
          (customShapePoints e)
          (randomSrc (repaint three n (e\<lparr>currentConfig := mergeConfig (currentConfig e) n\<rparr>))) i)"
  using updateConfig_keeps_targets[of n three e] updateConfig_regenerates[of e n i three]
  by blast

theorem updateConfig_regeneration_witness:
  "(newShape (onlySpread 2) = None \<and> newDensity (onlySpread 2) = None
      \<and> targetPositions (updateConfig three0 (onlySpread 2) varyingEngine) = targetPositions varyingEngine)
   \<and> (\<not> isDisposed varyingEngine
      \<and> newShape (onlyShape CUSTOM) \<noteq> None
      \<and> 7 < MAX_PARTICLES
      \<and> triple (targetPositions (updateConfig three0 (onlyShape CUSTOM) varyingEngine)) 7
           = (- 1.25, - 1.25, 0))"
  using updateConfig_regeneration[of "onlySpread 2" three0 varyingEngine 0]
        updateConfig_regeneration[of "onlyShape CUSTOM" three0 varyingEngine 7]
  by (simp add: varyingEngine_facts onlyShape_def onlySpread_def mergeConfig_def repaint_def
        regenerated_def MAX_PARTICLES_def dropDraws_def customTarget_def)

text \<open>
  C3 as stated fails: a partial configuration that names the current shape, and so leaves
  shape and density at their values, regenerates the targets; the z component of the target
  of particle 0 changes from 0 to -2.5.
\<close>

theorem updateConfig_same_shape_regenerates:
  "\<not> isDisposed varyingEngine
   \<and> newShape (onlyShape NEBULA) = Some (shape (currentConfig varyingEngine))
   \<and> newDensity (onlyShape NEBULA) = None
   \<and> mergeConfig (currentConfig varyingEngine) (onlyShape NEBULA) = currentConfig varyingEngine
   \<and> targetPositions (updateConfig three0 (onlyShape NEBULA) varyingEngine) 2
        \<noteq> targetPositions varyingEngine 2"
proof -
  have "triple (targetPositions (updateConfig three0 (onlyShape NEBULA) varyingEngine)) 0 =
          nebulaTarget (\<lambda>n. 1 / 4)"
    using updateConfig_regenerates[of varyingEngine "onlyShape NEBULA" 0 three0]
    by (simp add: varyingEngine_facts onlyShape_def mergeConfig_def repaint_def regenerated_def
          MAX_PARTICLES_def dropDraws_def)
  then have "snd (snd (triple (targetPositions (updateConfig three0 (onlyShape NEBULA) varyingEngine)) 0))
               = - 2.5"
    by (simp add: nebula_z)
  then have "targetPositions (updateConfig three0 (onlyShape NEBULA) varyingEngine) 2 = - 2.5"
    by (simp add: triple_z)
  then show ?thesis
    by (simp add: varyingEngine_facts onlyShape_def mergeConfig_def)
qed







text \<open>
  C7. On a live engine each \<open>animate\<close> step multiplies the scroll velocity by 0.96 and sets it
  to 0 when the absolute value of the product is below 0.0001; each scroll impulse adds
  \<open>|deltaY| * 0.0005\<close> and clamps the sum at 0.3. Starting at or below 0.3 (the engine
  starts at 0), the scroll velocity stays at or below 0.3 through every sequence of calls.
\<close>

theorem scroll_momentum:
  "(\<not> isDisposed e \<longrightarrow>
      scrollVelocity (animate h e) =
        (if \<bar>scrollVelocity e * 0.96\<bar> < 0.0001 then 0 else scrollVelocity e * 0.96))
   \<and> (\<not> isDisposed e \<longrightarrow>
      scrollVelocity (handleScroll d e) = min 0.3 (scrollVelocity e + \<bar>d\<bar> * 0.0005)
      \<and> scrollVelocity (handleScroll d e) \<le> 0.3)
   \<and> (scrollVelocity e \<le> 0.3 \<longrightarrow> scrollVelocity (run three calls e) \<le> 0.3)"
proof (intro conjI impI)
  assume "\<not> isDisposed e"
  then show "scrollVelocity (animate h e) =
        (if \<bar>scrollVelocity e * 0.96\<bar> < 0.0001 then 0 else scrollVelocity e * 0.96)"
    by (simp add: animate_scroll decayScroll_def Let_def)
next
  assume "\<not> isDisposed e"
  then show "scrollVelocity (handleScroll d e) = min 0.3 (scrollVelocity e + \<bar>d\<bar> * 0.0005)"
    by (rule handleScroll_scroll)
next
  assume "\<not> isDisposed e"
  then have "scrollVelocity (handleScroll d e) = min 0.3 (scrollVelocity e + \<bar>d\<bar> * 0.0005)"
    by (rule handleScroll_scroll)
  also have "\<dots> \<le> 0.3" by (rule min.cobounded1)
  finally show "scrollVelocity (handleScroll d e) \<le> 0.3" .
next
  assume "scrollVelocity e \<le> 0.3"
  then show "scrollVelocity (run three calls e) \<le> 0.3" by (rule run_scroll_le)
qed

theorem scroll_momentum_witness:
  "\<not> isDisposed engine0
   \<and> scrollVelocity (animate (1 / 2) (engine0\<lparr>scrollVelocity := 0.0001\<rparr>)) = 0
   \<and> scrollVelocity (animate (1 / 2) (engine0\<lparr>scrollVelocity := 0.25\<rparr>)) = 0.24
   \<and> scrollVelocity (handleScroll 100 engine0) = 0.05
   \<and> scrollVelocity (handleScroll 1000 engine0) = 0.3
   \<and> scrollVelocity engine0 \<le> 0.3
   \<and> scrollVelocity (run three0 [HandleScroll 1000, Animate 1, HandleScroll 1000, Dispose, Animate 0] engine0) \<le> 0.3"
  using scroll_momentum[of "engine0\<lparr>scrollVelocity := 0.0001\<rparr>" "1 / 2" 0 three0 "[]"]
        scroll_momentum[of "engine0\<lparr>scrollVelocity := 0.25\<rparr>" "1 / 2" 0 three0 "[]"]
        scroll_momentum[of engine0 0 100 three0 "[HandleScroll 1000, Animate 1, HandleScroll 1000, Dispose, Animate 0]"]
        scroll_momentum[of engine0 0 1000 three0 "[]"]
  by (simp add: engine0_def)

text \<open>
  C8. Regenerating the Custom shape: with no stored custom point, an active particle gets
  the flat cluster point \<open>((u - 0.5) * 5, (v - 0.5) * 5, 0)\<close> and the point list is not
  read; with \<open>len > 0\<close> stored points, the index \<open>i mod len\<close> is inside the list and the
  target of active particle i is that point plus a jitter of at most 0.5 on each axis.
\<close>

theorem custom_shape_targets:
  assumes "shape (currentConfig e) = CUSTOM" and "i < MAX_PARTICLES" and "int i < activeCount e"
      and "\<forall>n. 0 \<le> randomSrc e n \<and> randomSrc e n < 1"
  shows "(customShapePoints e = [] \<longrightarrow>
            triple (targetPositions (updateTargetShape e)) i =
              ((randomSrc e (2 * i) - 0.5) * 5, (randomSrc e (2 * i + 1) - 0.5) * 5, 0)
            \<and> \<bar>(randomSrc e (2 * i) - 0.5) * 5\<bar> \<le> 2.5
            \<and> \<bar>(randomSrc e (2 * i + 1) - 0.5) * 5\<bar> \<le> 2.5)
       \<and> (customShapePoints e \<noteq> [] \<longrightarrow>
            i mod length (customShapePoints e) < length (customShapePoints e)
            \<and> triple (targetPositions (updateTargetShape e)) i =
                (px (customShapePoints e ! (i mod length (customShapePoints e))) + (randomSrc e (3 * i) - 0.5),
                 py (customShapePoints e ! (i mod length (customShapePoints e))) + (randomSrc e (3 * i + 1) - 0.5),
                 pz (customShapePoints e ! (i mod length (customShapePoints e))) + (randomSrc e (3 * i + 2) - 0.5))
            \<and> \<bar>randomSrc e (3 * i) - 0.5\<bar> \<le> 0.5
            \<and> \<bar>randomSrc e (3 * i + 1) - 0.5\<bar> \<le> 0.5
            \<and> \<bar>randomSrc e (3 * i + 2) - 0.5\<bar> \<le> 0.5)"
proof -
  have b: "\<bar>randomSrc e n - 0.5\<bar> \<le> 0.5" for n
    using assms(4)[rule_format, of n] by linarith
  have b5: "\<bar>(randomSrc e n - 0.5) * 5\<bar> \<le> 2.5" for n
  proof -
    have "0 \<le> randomSrc e n" "randomSrc e n < 1" using assms(4) by simp_all
    then show ?thesis by (simp add: abs_if)
  qed
  have t: "triple (targetPositions (updateTargetShape e)) i =
             customTarget (customShapePoints e) i
               (dropDraws (shapeDraws CUSTOM (customShapePoints e) * i) (randomSrc e))"
    using assms(1-3) by (simp add: updateTargetShape_triple regenerated_def)
  show ?thesis
    using b b5 by (simp add: t customTarget_def dropDraws_def Let_def)
qed

theorem custom_shape_targets_witness:
  "(shape (currentConfig (withShape CUSTOM engine0)) = CUSTOM \<and> 4 < MAX_PARTICLES
      \<and> int 4 < activeCount (withShape CUSTOM engine0)
      \<and> (\<forall>n. 0 \<le> randomSrc (withShape CUSTOM engine0) n \<and> randomSrc (withShape CUSTOM engine0) n < 1)
      \<and> customShapePoints (withShape CUSTOM engine0) = []
      \<and> triple (targetPositions (updateTargetShape (withShape CUSTOM engine0))) 4 = (0, 0, 0))
   \<and> (customShapePoints (withShape CUSTOM engine0\<lparr>customShapePoints := threePoints\<rparr>) \<noteq> []
      \<and> triple (targetPositions (updateTargetShape
            (withShape CUSTOM engine0\<lparr>customShapePoints := threePoints\<rparr>))) 4 = (4, 5, 6))"
  using custom_shape_targets[of "withShape CUSTOM engine0" 4]
        custom_shape_targets[of "withShape CUSTOM engine0\<lparr>customShapePoints := threePoints\<rparr>" 4]
  by (simp add: engine0_def withShape_def threePoints_def MAX_PARTICLES_def activeCount_def)

text \<open>
  C9. After a regeneration with shape Sphere, whatever the random draws in [0, 1] are, the
  target of every active particle i is at distance \<open>12 * cbrt u\<close> from the origin, u being
  the first of its three draws, and so at distance at most 12.
\<close>

theorem sphere_targets_within_radius:
  assumes "shape (currentConfig e) = SPHERE" and "i < MAX_PARTICLES" and "int i < activeCount e"
      and "\<forall>n. 0 \<le> randomSrc e n \<and> randomSrc e n \<le> 1"
  shows "vnorm (triple (targetPositions (updateTargetShape e)) i) = 12 * root 3 (randomSrc e (3 * i))
       \<and> vnorm (triple (targetPositions (updateTargetShape e)) i) \<le> 12"
proof -
  let ?rnd = "dropDraws (shapeDraws SPHERE (customShapePoints e) * i) (randomSrc e)"
  have t: "triple (targetPositions (updateTargetShape e)) i = sphereTarget ?rnd"
    using assms(1-3) by (simp add: updateTargetShape_triple regenerated_def)
  have u: "?rnd 0 = randomSrc e (3 * i)" by (simp add: dropDraws_def)
  have r: "0 \<le> randomSrc e (3 * i)" "randomSrc e (3 * i) \<le> 1" using assms(4) by simp_all
  have "vnorm (sphereTarget ?rnd) = 12 * root 3 (?rnd 0)"
    by (rule sphereTarget_vnorm) (simp add: dropDraws_def r)
  then have n: "vnorm (triple (targetPositions (updateTargetShape e)) i) = 12 * root 3 (randomSrc e (3 * i))"
    by (simp only: t u)
  moreover have "12 * root 3 (randomSrc e (3 * i)) \<le> 12" using r by (rule cbrt_le_one)
  ultimately show ?thesis by simp
qed

theorem sphere_targets_within_radius_witness:
  "shape (currentConfig (withShape SPHERE engine0)) = SPHERE \<and> 99 < MAX_PARTICLES
   \<and> int 99 < activeCount (withShape SPHERE engine0)
   \<and> (\<forall>n. 0 \<le> randomSrc (withShape SPHERE engine0) n \<and> randomSrc (withShape SPHERE engine0) n \<le> 1)
   \<and> vnorm (triple (targetPositions (updateTargetShape (withShape SPHERE engine0))) 99) = 12 * root 3 (1 / 2)
   \<and> vnorm (triple (targetPositions (updateTargetShape (withShape SPHERE engine0))) 99) \<le> 12"
  using sphere_targets_within_radius[of "withShape SPHERE engine0" 99]
  by (simp add: engine0_def withShape_def MAX_PARTICLES_def activeCount_def)

text \<open>
  C10. A call of \<open>animate\<close> writes the position buffer, the rotation angles and the scroll
  momentum only: for every openness and every engine, the target buffer, the colour buffer,
  the stored configuration and the stored custom points are the same after the call.
\<close>

theorem animate_frame:
  "targetPositions (animate h e) = targetPositions e
   \<and> colors (animate h e) = colors e
   \<and> currentConfig (animate h e) = currentConfig e
   \<and> customShapePoints (animate h e) = customShapePoints e"
  by (simp add: animate_def rebuildGrid_def startFrame_def Let_def
        fold_particleStep_frame fold_gridStep_frame)

end
